theory Spec2Isabelle
  imports Complex_Main "HOL-Library.Multiset" "HOL-Library.Product_Lexorder"
begin

section \<open>The index store schema (src/db/schema.ts)\<close>

text \<open>
  A class schema is the object literal handed to the store's class creator. A property
  carries its name, the list of data types, a description and the two index flags; a flag
  that the literal leaves out is \<open>None\<close>. The field \<open>class\<close> of the source is called
  \<open>className\<close> here, because \<open>class\<close> is a keyword. A named vector carries its
  vectorizer and its dimension.
\<close>

record property =
  name :: string
  dataType :: "string list"
  description :: string
  indexFilterable :: "bool option"
  indexSearchable :: "bool option"

record namedVector =
  vectorizer :: string
  dimension :: nat

record classSchema =
  className :: string
  namedVectors :: "(string \<times> namedVector) list"
  properties :: "property list"

text \<open>
  The constants \<open>dataType.TEXT\<close>, \<open>dataType.INT\<close> and \<open>dataType.DATE\<close> come from the
  store's client library (\<open>configure.dataType\<close>); they are the strings the other two
  schemas of the file write out as literals.
\<close>

definition dataType_TEXT :: string where
  "dataType_TEXT = ''text''"

definition dataType_INT :: string where
  "dataType_INT = ''int''"

definition dataType_DATE :: string where
  "dataType_DATE = ''date''"

definition contentEntityDefinitionSchema :: classSchema where
  "contentEntityDefinitionSchema = \<lparr>
     className = ''ContentEntityDefinition'',
     namedVectors = [],
     properties = [
       \<lparr> name = ''identifier'', dataType = [''text''],
         description = ''The name or heading of this entity (function name, class name, doc section, etc.)'',
         indexFilterable = Some True, indexSearchable = Some True \<rparr>,
       \<lparr> name = ''entityType'', dataType = [''text''],
         description = ''High-level type: function, class, markdownSection, etc.'',
         indexFilterable = Some True, indexSearchable = Some True \<rparr>,
       \<lparr> name = ''fileVersion'', dataType = [''FileVersion''],
         description = ''Reference to the specific FileVersion in which this definition appears'',
         indexFilterable = None, indexSearchable = None \<rparr>,
       \<lparr> name = ''filePath'', dataType = [''text''],
         description = ''The file path for this definition, typically redundant with fileVersion but convenient.'',
         indexFilterable = Some True, indexSearchable = Some True \<rparr>,
       \<lparr> name = ''lineStart'', dataType = [''int''],
         description = ''Line number where the definition starts'',
         indexFilterable = Some True, indexSearchable = None \<rparr>,
       \<lparr> name = ''lineEnd'', dataType = [''int''],
         description = ''Line number where the definition ends'',
         indexFilterable = Some True, indexSearchable = None \<rparr>,
       \<lparr> name = ''definedInChunk'', dataType = [''Chunk''],
         description = ''Optional reference to the chunk that physically contains the definition'',
         indexFilterable = None, indexSearchable = None \<rparr>
     ] \<rparr>"

definition contentEntityReferenceSchema :: classSchema where
  "contentEntityReferenceSchema = \<lparr>
     className = ''ContentEntityReference'',
     namedVectors = [],
     properties = [
       \<lparr> name = ''identifierUsed'', dataType = [''text''],
         description = ''The literal name or heading used in the referencing code or doc. E.g., ''
           @ [CHR 0x22] @ ''fooMethod'' @ [CHR 0x22] @ ''.'',
         indexFilterable = Some True, indexSearchable = Some True \<rparr>,
       \<lparr> name = ''referenceType'', dataType = [''text''],
         description = ''call, import, link, reexport, mention, etc.'',
         indexFilterable = Some True, indexSearchable = Some True \<rparr>,
       \<lparr> name = ''fileVersion'', dataType = [''FileVersion''],
         description = ''The version of the file in which this reference occurs'',
         indexFilterable = None, indexSearchable = None \<rparr>,
       \<lparr> name = ''filePath'', dataType = [''text''],
         description = ''The referencing file path (optional if implied by fileVersion)'',
         indexFilterable = Some True, indexSearchable = Some True \<rparr>,
       \<lparr> name = ''lineStart'', dataType = [''int''],
         description = ''Line where this reference is used'',
         indexFilterable = Some True, indexSearchable = None \<rparr>,
       \<lparr> name = ''lineEnd'', dataType = [''int''],
         description = ''Line range end for the usage'',
         indexFilterable = Some True, indexSearchable = None \<rparr>,
       \<lparr> name = ''appearsInChunk'', dataType = [''Chunk''],
         description = ''Reference to the chunk containing this usage, if you want chunk-level linking'',
         indexFilterable = None, indexSearchable = None \<rparr>
     ] \<rparr>"

definition fileVersionSchema :: classSchema where
  "fileVersionSchema = \<lparr>
     className = ''FileVersion'',
     namedVectors = [],
     properties = [
       \<lparr> name = ''repoId'', dataType = [dataType_TEXT],
         description = ''Repository identifier'',
         indexFilterable = Some True, indexSearchable = Some True \<rparr>,
       \<lparr> name = ''projectDir'', dataType = [dataType_TEXT],
         description = ''Project directory path'',
         indexFilterable = Some True, indexSearchable = Some True \<rparr>,
       \<lparr> name = ''filePath'', dataType = [dataType_TEXT],
         description = ''Path to the file within the project'',
         indexFilterable = Some True, indexSearchable = Some True \<rparr>,
       \<lparr> name = ''contentHash'', dataType = [dataType_TEXT],
         description = ''Hash of the file content'',
         indexFilterable = Some True, indexSearchable = Some True \<rparr>,
       \<lparr> name = ''chunks'', dataType = [''Chunk''],
         description = ''Associated code chunks from this file version'',
         indexFilterable = None, indexSearchable = None \<rparr>
     ] \<rparr>"

definition chunkSchema :: classSchema where
  "chunkSchema = \<lparr>
     className = ''Chunk'',
     namedVectors = [
       (''embed_formatted_voyage_c3'', \<lparr> vectorizer = ''none'', dimension = 2048 \<rparr>)
     ],
     properties = [
       \<lparr> name = ''content'', dataType = [dataType_TEXT],
         description = ''Verbatim code content of the chunk'',
         indexFilterable = None, indexSearchable = Some True \<rparr>,
       \<lparr> name = ''commentary'', dataType = [dataType_TEXT],
         description = ''AI-generated commentary about the chunk'',
         indexFilterable = None, indexSearchable = Some True \<rparr>,
       \<lparr> name = ''repoId'', dataType = [dataType_TEXT],
         description = ''An identifier for the repository this chunk comes from'',
         indexFilterable = Some True, indexSearchable = Some True \<rparr>,
       \<lparr> name = ''filePath'', dataType = [dataType_TEXT],
         description = ''Path to the source file'',
         indexFilterable = Some True, indexSearchable = Some True \<rparr>,
       \<lparr> name = ''contentHash'', dataType = [dataType_TEXT],
         description = ''A hash of the file content (for deduplication)'',
         indexFilterable = Some True, indexSearchable = Some True \<rparr>,
       \<lparr> name = ''lineStart'', dataType = [dataType_INT],
         description = ''Starting line number in the source file'',
         indexFilterable = Some True, indexSearchable = None \<rparr>,
       \<lparr> name = ''lineEnd'', dataType = [dataType_INT],
         description = ''Ending line number in the source file'',
         indexFilterable = Some True, indexSearchable = None \<rparr>,
       \<lparr> name = ''language'', dataType = [dataType_TEXT],
         description = ''Programming language of the chunk'',
         indexFilterable = Some True, indexSearchable = Some True \<rparr>,
       \<lparr> name = ''declarationType'', dataType = [dataType_TEXT],
         description = ''High-level classification (function, class, etc.)'',
         indexFilterable = Some True, indexSearchable = Some True \<rparr>,
       \<lparr> name = ''referenceSymbols'', dataType = [dataType_TEXT],
         description = ''Symbol-level references (imports, function calls, etc.)'',
         indexFilterable = Some True, indexSearchable = Some True \<rparr>,
       \<lparr> name = ''referenceChunks'', dataType = [''Chunk''],
         description = ''Cross-reference to other Chunks this chunk calls or depends on'',
         indexFilterable = None, indexSearchable = None \<rparr>,
       \<lparr> name = ''fileVersion'', dataType = [''FileVersion''],
         description = ''Reference to the FileVersion this chunk belongs to'',
         indexFilterable = None, indexSearchable = None \<rparr>
     ] \<rparr>"

definition commitFileVersionSchema :: classSchema where
  "commitFileVersionSchema = \<lparr>
     className = ''CommitFileVersion'',
     namedVectors = [],
     properties = [
       \<lparr> name = ''commitHash'', dataType = [dataType_TEXT],
         description = ''Git commit hash'',
         indexFilterable = Some True, indexSearchable = Some True \<rparr>,
       \<lparr> name = ''fileVersion'', dataType = [''FileVersion''],
         description = ''Reference to the associated FileVersion'',
         indexFilterable = None, indexSearchable = None \<rparr>,
       \<lparr> name = ''timestamp'', dataType = [dataType_DATE],
         description = ''Commit timestamp'',
         indexFilterable = Some True, indexSearchable = None \<rparr>
     ] \<rparr>"

subsection \<open>Creating the classes\<close>

text \<open>
  The store is the external collaborator behind \<open>client.schema\<close>. Its state is the list
  of classes it holds. \<open>classCreator_do c\<close> stands for
  \<open>client.schema.classCreator().withClass(c).do()\<close>: the request is rejected when a class
  of that name exists already, and adds the class otherwise.
\<close>

datatype error = ClassExists string

type_synonym store = "classSchema list"

definition classNames :: "store \<Rightarrow> string list" where
  "classNames s = map className s"

definition classCreator_do :: "classSchema \<Rightarrow> store \<Rightarrow> error + store" where
  "classCreator_do c s =
     (if className c \<in> set (classNames s) then Inl (ClassExists (className c))
      else Inr (s @ [c]))"

text \<open>
  \<open>createAllSchemas\<close> awaits three creations in a row inside one \<open>try\<close>; the \<open>catch\<close>
  logs the error and throws it again, so the first failure is the result. The creator is a
  parameter, the client the function is called with. The console output (on success the
  line \<open>All schemas created successfully.\<close>) is not part of the result.
\<close>

definition createAllSchemas :: "(classSchema \<Rightarrow> 's \<Rightarrow> 'e + 's) \<Rightarrow> 's \<Rightarrow> 'e + 's" where
  "createAllSchemas create s =
     (case create chunkSchema s of
        Inl err \<Rightarrow> Inl err
      | Inr s1 \<Rightarrow>
          (case create fileVersionSchema s1 of
             Inl err \<Rightarrow> Inl err
           | Inr s2 \<Rightarrow>
               (case create commitFileVersionSchema s2 of
                  Inl err \<Rightarrow> Inl err
                | Inr s3 \<Rightarrow> Inr s3)))"

text \<open>
  The classes of the record kinds the engine persists (chunks, file versions, definitions
  and references), as the specification names them.
\<close>

definition persistedClassNames :: "string list" where
  "persistedClassNames =
     [''Chunk'', ''FileVersion'', ''CommitFileVersion'',
      ''ContentEntityDefinition'', ''ContentEntityReference'']"

text \<open>The fields of a chunk as the data model of the specification lists them.\<close>

definition specChunkFields :: "string set" where
  "specChunkFields =
     {''content'', ''commentary'', ''lineStart'', ''lineEnd'', ''language'',
      ''declarationType'', ''referenceSymbols'', ''referenceChunks'', ''fileVersion''}"

section \<open>The query request (QueryRequest)\<close>

text \<open>
  A request arrives as a JSON value. An object is the list of its members; \<open>field\<close>
  reads a member by name.
\<close>

datatype json =
    JNull
  | JBool bool
  | JNum real
  | JStr string
  | JArr "json list"
  | JObj "(string \<times> json) list"

definition field :: "json \<Rightarrow> string \<Rightarrow> json option" where
  "field j k = (case j of JObj members \<Rightarrow> map_of members k | _ \<Rightarrow> None)"







definition optional :: "json \<Rightarrow> string \<Rightarrow> (json \<Rightarrow> bool) \<Rightarrow> bool" where
  "optional j k P = (case field j k of None \<Rightarrow> True | Some v \<Rightarrow> P v)"










section \<open>The server (src/main.ts)\<close>

subsection \<open>The listen port\<close>

text \<open>
  \<open>parseInt\<close> with no radix, after ECMAScript: leading white space is dropped, then a
  sign, then a prefix \<open>0x\<close> or \<open>0X\<close> (which makes the radix 16, otherwise it is 10);
  the digits up to the first character that is not a digit of the radix are read, and no
  digit at all gives NaN, here \<open>None\<close>. Characters are the code units below 256, so the
  white space is TAB, LF, VT, FF, CR, SP and NBSP. The result is the exact integer (the
  JavaScript number is its nearest double, the same integer below \<open>2^53\<close>).
\<close>

definition isWhiteSpace :: "char \<Rightarrow> bool" where
  "isWhiteSpace c \<longleftrightarrow>
     c = CHR 0x09 \<or> c = CHR 0x0A \<or> c = CHR 0x0B \<or> c = CHR 0x0C \<or> c = CHR 0x0D
     \<or> c = CHR 0x20 \<or> c = CHR 0xA0"

definition digitValue :: "char \<Rightarrow> nat option" where
  "digitValue c =
     (let n = of_char c :: nat in
      if 48 \<le> n \<and> n \<le> 57 then Some (n - 48)
      else if 97 \<le> n \<and> n \<le> 122 then Some (n - 87)
      else if 65 \<le> n \<and> n \<le> 90 then Some (n - 55)
      else None)"

definition digitIn :: "nat \<Rightarrow> char \<Rightarrow> nat option" where
  "digitIn R c =
     (case digitValue c of None \<Rightarrow> None | Some d \<Rightarrow> if d < R then Some d else None)"

fun leadingDigits :: "nat \<Rightarrow> string \<Rightarrow> nat list" where
  "leadingDigits R [] = []"
| "leadingDigits R (c # cs) =
     (case digitIn R c of None \<Rightarrow> [] | Some d \<Rightarrow> d # leadingDigits R cs)"

definition mathInt :: "nat \<Rightarrow> nat list \<Rightarrow> nat" where
  "mathInt R Z = foldl (\<lambda>acc d. acc * R + d) 0 Z"

definition parseInt :: "string \<Rightarrow> int option" where
  "parseInt inputString =
     (let S = dropWhile isWhiteSpace inputString;
          sign = (if take 1 S = ''-'' then - 1 else 1 :: int);
          S1 = (if take 1 S = ''+'' \<or> take 1 S = ''-'' then drop 1 S else S);
          hex = (take 2 S1 = ''0x'' \<or> take 2 S1 = ''0X'');
          R = (if hex then 16 else 10);
          S2 = (if hex then drop 2 S1 else S1);
          Z = leadingDigits R S2
      in if Z = [] then None else Some (sign * int (mathInt R Z)))"

text \<open>
  \<open>const port = parseInt(Deno.env.get("PORT") || "3000")\<close>: the environment is a map
  from names to strings, a variable that is not set reads as undefined, and undefined
  and the empty string are the two values \<open>||\<close> replaces.
\<close>

definition port :: "(string \<rightharpoonup> string) \<Rightarrow> int option" where
  "port env =
     parseInt (case env ''PORT'' of
                 None \<Rightarrow> ''3000''
               | Some v \<Rightarrow> if v = [] then ''3000'' else v)"

subsection \<open>The error middleware\<close>











section \<open>The reference resolver\<close>

text \<open>
  Modelled from the spec: the Reference Graph / Resolver (component design, 4.3) has no
  source file; only the schema of the definitions it ranks is declared. A definition is
  the ContentEntityDefinition record as the resolver reads it: the identity the store gave
  it (\<open>defId\<close>), the properties \<open>identifier\<close> (here \<open>identifierName\<close>, the other
  being a keyword), \<open>entityType\<close>, \<open>filePath\<close>, \<open>lineStart\<close> and \<open>lineEnd\<close>, and
  from its file version the repository and the time from which that version is valid.
\<close>

record entityDefinition =
  defId :: nat
  identifierName :: string
  entityType :: string
  repoId :: string
  filePath :: string
  lineStart :: int
  lineEnd :: int
  validFrom :: int

text \<open>
  Modelled from the spec: the constraints of \<open>resolve(identifierUsed, constraints)\<close>: an
  optional \<open>entityType\<close> filter, an optional file path hint carried on the reference,
  and the provenance of the reference: its repository, its file, and the time of the
  referencing file version's commit when there is a commit context.
\<close>

record constraints =
  wantEntityType :: "string option"
  pathHint :: "string option"
  fromRepoId :: string
  fromFilePath :: string
  fromCommitTime :: "int option"

text \<open>
  Modelled from the spec: matching is the exact identifier match, optionally filtered by
  \<open>entityType\<close> and by the path hint.
\<close>

definition matches :: "string \<Rightarrow> constraints \<Rightarrow> entityDefinition \<Rightarrow> bool" where
  "matches identifierUsed c d \<longleftrightarrow>
     identifierName d = identifierUsed
     \<and> (case wantEntityType c of None \<Rightarrow> True | Some t \<Rightarrow> entityType d = t)
     \<and> (case pathHint c of None \<Rightarrow> True | Some p \<Rightarrow> filePath d = p)"

text \<open>
  Modelled from the spec: tie-break (1), version proximity. With a commit context the
  definitions valid at or before the reference's provenance come first, the most recent
  of them first; the later ones follow, the nearest first. With no commit context the most
  recent version comes first.
\<close>

definition versionProximity :: "constraints \<Rightarrow> entityDefinition \<Rightarrow> nat \<times> int" where
  "versionProximity c d =
     (case fromCommitTime c of
        None \<Rightarrow> (0, - validFrom d)
      | Some t \<Rightarrow>
          if validFrom d \<le> t then (0, t - validFrom d) else (1, validFrom d - t))"

text \<open>
  Modelled from the spec: tie-break (2), path proximity: same file, then same directory,
  then same repository, then another repository. The directory of a path is the path up to
  its last slash.
\<close>

definition dirname :: "string \<Rightarrow> string" where
  "dirname p = rev (dropWhile (\<lambda>ch. ch \<noteq> CHR ''/'') (rev p))"

definition pathProximity :: "constraints \<Rightarrow> entityDefinition \<Rightarrow> nat" where
  "pathProximity c d =
     (if repoId d \<noteq> fromRepoId c then 3
      else if filePath d = fromFilePath c then 0
      else if dirname (filePath d) = dirname (fromFilePath c) then 1
      else 2)"

text \<open>
  Modelled from the spec: the order of the candidates is the lexicographic order of
  version proximity, path proximity and, as tie-break (3), the definition's identity.
  \<open>resolve\<close> takes the definitions as the store enumerates them, keeps the matching
  ones and sorts them by that key.
\<close>

definition resolveKey :: "constraints \<Rightarrow> entityDefinition \<Rightarrow> (nat \<times> int) \<times> nat \<times> nat" where
  "resolveKey c d = (versionProximity c d, pathProximity c d, defId d)"

definition resolve ::
  "entityDefinition list \<Rightarrow> string \<Rightarrow> constraints \<Rightarrow> entityDefinition list" where
  "resolve store identifierUsed c =
     sort_key (resolveKey c) (filter (matches identifierUsed c) store)"

text \<open>
  Three definitions of one identifier (two versions of a file of repository A, and a file
  of repository B) and a reference from a sibling file of the first.
\<close>

definition helperOld :: entityDefinition where
  "helperOld = \<lparr> defId = 1, identifierName = ''helperFunction'', entityType = ''function'',
     repoId = ''repoA'', filePath = ''src/util/helper.ts'', lineStart = 10, lineEnd = 20,
     validFrom = 100 \<rparr>"

definition helperNew :: entityDefinition where
  "helperNew = \<lparr> defId = 2, identifierName = ''helperFunction'', entityType = ''function'',
     repoId = ''repoA'', filePath = ''src/util/helper.ts'', lineStart = 12, lineEnd = 24,
     validFrom = 200 \<rparr>"

definition helperElsewhere :: entityDefinition where
  "helperElsewhere = \<lparr> defId = 3, identifierName = ''helperFunction'',
     entityType = ''function'', repoId = ''repoB'', filePath = ''lib/helper.ts'',
     lineStart = 1, lineEnd = 5, validFrom = 200 \<rparr>"

definition fromMain :: constraints where
  "fromMain = \<lparr> wantEntityType = None, pathHint = None, fromRepoId = ''repoA'',
     fromFilePath = ''src/util/main.ts'', fromCommitTime = Some 250 \<rparr>"

section \<open>Schema setup\<close>

lemma createAllSchemas_empty:
  "createAllSchemas classCreator_do [] =
     Inr [chunkSchema, fileVersionSchema, commitFileVersionSchema]"
  by (simp add: createAllSchemas_def classCreator_do_def classNames_def
      chunkSchema_def fileVersionSchema_def commitFileVersionSchema_def)

text \<open>
  C1. The claim: every successful run of \<open>createAllSchemas\<close> leaves the store with the
  classes Chunk, FileVersion, CommitFileVersion, ContentEntityDefinition and
  ContentEntityReference. On an empty store the run succeeds and the store holds the first
  three only: the two reference-graph schemas the file declares are never handed to the
  creator.
\<close>

theorem createAllSchemas_misses_entity_classes:
  "\<exists>s. createAllSchemas classCreator_do [] = Inr s
      \<and> classNames s = [''Chunk'', ''FileVersion'', ''CommitFileVersion'']
      \<and> className contentEntityDefinitionSchema \<notin> set (classNames s)
      \<and> className contentEntityReferenceSchema \<notin> set (classNames s)
      \<and> \<not> set persistedClassNames \<subseteq> set (classNames s)"
  by (simp add: createAllSchemas_empty classNames_def persistedClassNames_def
      chunkSchema_def fileVersionSchema_def commitFileVersionSchema_def
      contentEntityDefinitionSchema_def contentEntityReferenceSchema_def)

section \<open>The stored shapes\<close>

lemma chunkSchema_names:
  "map name (properties chunkSchema) =
     [''content'', ''commentary'', ''repoId'', ''filePath'', ''contentHash'', ''lineStart'',
      ''lineEnd'', ''language'', ''declarationType'', ''referenceSymbols'',
      ''referenceChunks'', ''fileVersion'']"
  by (simp add: chunkSchema_def)

text \<open>
  C3. A ContentEntityReference stores the usage side only: the identifier used, the
  reference type, the owning file version, its own file path and line range, and the
  chunk it appears in. These seven properties are all the class has; none of them links to
  a ContentEntityDefinition, so the resolved definition's location is not part of the
  stored shape.
\<close>

theorem contentEntityReference_usage_side_only:
  "className contentEntityReferenceSchema = ''ContentEntityReference''
   \<and> map name (properties contentEntityReferenceSchema) =
       [''identifierUsed'', ''referenceType'', ''fileVersion'', ''filePath'',
        ''lineStart'', ''lineEnd'', ''appearsInChunk'']
   \<and> map dataType (properties contentEntityReferenceSchema) =
       [[''text''], [''text''], [''FileVersion''], [''text''], [''int''], [''int''], [''Chunk'']]
   \<and> className contentEntityDefinitionSchema
       \<notin> set (concat (map dataType (properties contentEntityReferenceSchema)))"
  by (simp add: contentEntityReferenceSchema_def contentEntityDefinitionSchema_def)

text \<open>
  C7, as the claim states it: the properties of a Chunk are exactly the fields the data
  model lists. They are not: the class also has \<open>repoId\<close>, \<open>filePath\<close> and
  \<open>contentHash\<close>.
\<close>

theorem chunk_fields_not_exactly_listed:
  "set (map name (properties chunkSchema)) \<noteq> specChunkFields
   \<and> ''repoId'' \<in> set (map name (properties chunkSchema)) - specChunkFields"
proof -
  have "''repoId'' \<in> set (map name (properties chunkSchema))"
    by (simp add: chunkSchema_names)
  moreover have "''repoId'' \<notin> specChunkFields"
    by (simp add: specChunkFields_def)
  ultimately show ?thesis by blast
qed

text \<open>
  C7, amended: a Chunk carries every field the data model lists (content, commentary,
  line start and end, language, declaration type, reference symbols, reference chunks as
  links to Chunk, the link to its FileVersion, and one named vector), and besides them
  \<open>repoId\<close>, \<open>filePath\<close> and \<open>contentHash\<close>; each property occurs once and
  there is no other.
\<close>

theorem chunk_fields_listed_plus_three:
  "set (map name (properties chunkSchema)) =
     specChunkFields \<union> {''repoId'', ''filePath'', ''contentHash''}
   \<and> distinct (map name (properties chunkSchema))
   \<and> length (properties chunkSchema) = 12
   \<and> map fst (namedVectors chunkSchema) = [''embed_formatted_voyage_c3'']
   \<and> map dataType (filter (\<lambda>p. name p = ''fileVersion'') (properties chunkSchema)) =
       [[''FileVersion'']]
   \<and> map dataType (filter (\<lambda>p. name p = ''referenceChunks'') (properties chunkSchema)) =
       [[''Chunk'']]"
proof -
  have "set (map name (properties chunkSchema)) =
      specChunkFields \<union> {''repoId'', ''filePath'', ''contentHash''}"
    unfolding chunkSchema_names specChunkFields_def by auto
  moreover have "distinct (map name (properties chunkSchema))"
    unfolding chunkSchema_names by simp
  moreover have "length (properties chunkSchema) = 12"
    by (simp add: chunkSchema_def)
  moreover have "map fst (namedVectors chunkSchema) = [''embed_formatted_voyage_c3'']"
    by (simp add: chunkSchema_def)
  moreover have
    "map dataType (filter (\<lambda>p. name p = ''fileVersion'') (properties chunkSchema)) =
       [[''FileVersion'']]"
    by (simp add: chunkSchema_def)
  moreover have
    "map dataType (filter (\<lambda>p. name p = ''referenceChunks'') (properties chunkSchema)) =
       [[''Chunk'']]"
    by (simp add: chunkSchema_def)
  ultimately show ?thesis by simp
qed

lemma chunkSchema_namedVectors:
  "namedVectors chunkSchema =
     [(''embed_formatted_voyage_c3'', \<lparr> vectorizer = ''none'', dimension = 2048 \<rparr>)]"
  by (simp add: chunkSchema_def)

section \<open>The query request\<close>










section \<open>The server\<close>

lemma parseInt_3000: "parseInt ''3000'' = Some 3000"
  by (simp add: parseInt_def isWhiteSpace_def digitIn_def digitValue_def mathInt_def)

lemma parseInt_8080: "parseInt ''8080'' = Some 8080"
  by (simp add: parseInt_def isWhiteSpace_def digitIn_def digitValue_def mathInt_def)

text \<open>
  C9. The listen port is the integer parse of the variable PORT, and 3000 when PORT is
  not set or empty.
\<close>

theorem port_from_env:
  "(env ''PORT'' = None \<or> env ''PORT'' = Some [] \<longrightarrow> port env = Some 3000)
   \<and> (\<forall>v. env ''PORT'' = Some v \<and> v \<noteq> [] \<longrightarrow> port env = parseInt v)"
  by (auto simp add: port_def parseInt_3000)

theorem port_from_env_witness:
  "port Map.empty = Some 3000
   \<and> port [''PORT'' \<mapsto> []] = Some 3000
   \<and> port [''PORT'' \<mapsto> ''8080''] = Some 8080"
proof -
  have "port Map.empty = Some 3000"
    using port_from_env [of Map.empty] by simp
  moreover have "port [''PORT'' \<mapsto> []] = Some 3000"
    using port_from_env [of "[''PORT'' \<mapsto> []]"] by simp
  moreover have "port [''PORT'' \<mapsto> ''8080''] = Some 8080"
    using port_from_env [of "[''PORT'' \<mapsto> ''8080'']"] parseInt_8080 by simp
  ultimately show ?thesis by simp
qed




section \<open>Reference resolution\<close>

lemma resolveKey_inj:
  assumes "distinct (map defId store)"
  shows "inj_on (resolveKey c) (set store)"
proof (rule inj_onI)
  fix x y
  assume x: "x \<in> set store" and y: "y \<in> set store"
    and eq: "resolveKey c x = resolveKey c y"
  from eq have "defId x = defId y" by (simp add: resolveKey_def)
  moreover from assms have "inj_on defId (set store)" by (simp add: distinct_map)
  ultimately show "x = y" using x y by (auto dest: inj_onD)
qed

lemma sort_key_perm_unique:
  fixes f :: "'a \<Rightarrow> 'k::linorder"
  assumes d: "distinct xs" and inj: "inj_on f (set xs)" and m: "mset ys = mset xs"
  shows "sort_key f ys = sort_key f xs"
proof -
  from m have s: "set ys = set xs" by (rule mset_eq_setD)
  from d have dy: "distinct ys" using mset_eq_imp_distinct_iff [OF m] by blast
  have "map f (sort_key f ys) = map f (sort_key f xs)"
  proof (rule sorted_distinct_set_unique)
    show "sorted (map f (sort_key f ys))" by (rule sorted_sort_key)
    show "sorted (map f (sort_key f xs))" by (rule sorted_sort_key)
    show "distinct (map f (sort_key f ys))" using dy inj s by (simp add: distinct_map)
    show "distinct (map f (sort_key f xs))" using d inj by (simp add: distinct_map)
    show "set (map f (sort_key f ys)) = set (map f (sort_key f xs))" using s by simp
  qed
  moreover have "inj_on f (set (sort_key f ys) \<union> set (sort_key f xs))"
    using inj s by simp
  ultimately show ?thesis by (simp add: inj_on_map_eq_map)
qed

lemma resolve_example:
  "resolve [helperOld, helperNew, helperElsewhere] ''helperFunction'' fromMain =
     [helperNew, helperElsewhere, helperOld]"
proof -
  have k1: "resolveKey fromMain helperOld = ((0, 150), 1, 1)"
    by (simp add: helperOld_def fromMain_def resolveKey_def versionProximity_def
        pathProximity_def dirname_def)
  have k2: "resolveKey fromMain helperNew = ((0, 50), 1, 2)"
    by (simp add: helperNew_def fromMain_def resolveKey_def versionProximity_def
        pathProximity_def dirname_def)
  have k3: "resolveKey fromMain helperElsewhere = ((0, 50), 3, 3)"
    by (simp add: helperElsewhere_def fromMain_def resolveKey_def versionProximity_def
        pathProximity_def dirname_def)
  have m1: "matches ''helperFunction'' fromMain helperOld"
    by (simp add: matches_def helperOld_def fromMain_def)
  have m2: "matches ''helperFunction'' fromMain helperNew"
    by (simp add: matches_def helperNew_def fromMain_def)
  have m3: "matches ''helperFunction'' fromMain helperElsewhere"
    by (simp add: matches_def helperElsewhere_def fromMain_def)
  show ?thesis by (simp add: resolve_def m1 m2 m3 k1 k2 k3)
qed

text \<open>
  C5. Resolution is deterministic: against an unchanged store, whose definitions have
  distinct identities, \<open>resolve\<close> with the same identifier and constraints returns the
  same ordered candidate list, in whatever order the store enumerates its definitions on
  the two calls. The identity as the last component of the key is what decides between
  candidates the two proximities leave tied.
\<close>

theorem resolve_deterministic:
  assumes "distinct (map defId store)" and "mset store' = mset store"
  shows "resolve store' identifierUsed c = resolve store identifierUsed c"
proof -
  let ?m = "matches identifierUsed c"
  from assms(1) have "distinct store" by (simp add: distinct_map)
  then have "distinct (filter ?m store)" by simp
  moreover have "inj_on (resolveKey c) (set (filter ?m store))"
    using resolveKey_inj [OF assms(1), of c] by (auto intro: inj_on_subset)
  moreover from assms(2) have "mset (filter ?m store') = mset (filter ?m store)" by simp
  ultimately show ?thesis unfolding resolve_def by (rule sort_key_perm_unique)
qed

theorem resolve_deterministic_witness:
  "distinct (map defId [helperOld, helperNew, helperElsewhere])
   \<and> mset [helperElsewhere, helperOld, helperNew] = mset [helperOld, helperNew, helperElsewhere]
   \<and> resolve [helperElsewhere, helperOld, helperNew] ''helperFunction'' fromMain
       = resolve [helperOld, helperNew, helperElsewhere] ''helperFunction'' fromMain
   \<and> resolve [helperElsewhere, helperOld, helperNew] ''helperFunction'' fromMain
       = [helperNew, helperElsewhere, helperOld]"
proof -
  have d: "distinct (map defId [helperOld, helperNew, helperElsewhere])"
    by (simp add: helperOld_def helperNew_def helperElsewhere_def)
  have m: "mset [helperElsewhere, helperOld, helperNew]
      = mset [helperOld, helperNew, helperElsewhere]"
    by (simp add: add_mset_commute)
  from resolve_deterministic [OF d m]
  have "resolve [helperElsewhere, helperOld, helperNew] ''helperFunction'' fromMain
      = resolve [helperOld, helperNew, helperElsewhere] ''helperFunction'' fromMain" .
  with d m resolve_example show ?thesis by simp
qed

end
